theory Spec2Isabelle
  imports Main "HOL-Library.Sublist" "HOL-Library.Multiset"
begin

section \<open>Data model\<close>

text \<open>
  The views of \<^verbatim>\<open>tickets/views.py\<close> work on the rows of three tables (tickets,
  follow-up comments, votes) and on the request. The model classes live in
  \<^verbatim>\<open>models.py\<close>, outside the sources; the records below carry exactly the
  fields that the views read (\<^verbatim>\<open>submitted_by\<close>, \<^verbatim>\<open>assigned_to\<close>, \<^verbatim>\<open>status\<close>,
  \<^verbatim>\<open>ticket_type\<close>, \<^verbatim>\<open>title\<close>, \<^verbatim>\<open>description\<close>, \<^verbatim>\<open>created_on\<close>,
  \<^verbatim>\<open>tags__slug\<close>, \<^verbatim>\<open>private\<close>, \<^verbatim>\<open>user_id\<close>). A foreign key is stored as the
  joined row, a nullable one as an option.
\<close>

record user =
  user_id :: nat
  username :: string

datatype auth_user = AnonymousUser | User user

record tag =
  tag_name :: string
  slug :: string

record ticket =
  ticket_pk :: nat
  title :: string
  description :: string
  status :: string
  ticket_type :: string
  submitted_by :: "user option"
  assigned_to :: "user option"
  created_on :: int
  tags :: "tag list"

record followup =
  followup_ticket :: nat
  followup_private :: bool
  followup_created_on :: int
  followup_comment :: string

record uservotelog =
  vote_ticket :: nat
  vote_user_id :: nat

record db =
  ticket_table :: "ticket list"
  followup_table :: "followup list"
  uservotelog_table :: "uservotelog list"

text \<open>A \<^verbatim>\<open>QueryDict\<close> (\<^verbatim>\<open>request.GET\<close>, \<^verbatim>\<open>request.POST\<close>) is a list of key/value
  pairs; it is truthy when it is not empty, and \<^verbatim>\<open>get\<close> returns the last value
  given for the key.\<close>

type_synonym querydict = "(string \<times> string) list"

record request =
  req_user :: auth_user
  GET :: querydict
  POST :: querydict

definition querydict_get :: "querydict \<Rightarrow> string \<Rightarrow> string option" where
  "querydict_get qd k =
     (case filter (\<lambda>kv. fst kv = k) qd of
        [] \<Rightarrow> None
      | kv # kvs \<Rightarrow> Some (snd (last (kv # kvs))))"

text \<open>The URL keyword arguments of a class-based view (\<^verbatim>\<open>self.kwargs\<close>) are a dict
  from names to strings; \<^verbatim>\<open>self.kwargs.get(k, None)\<close> is the application of the map.\<close>

type_synonym kwargs = "string \<rightharpoonup> string"

text \<open>Python truthiness of an optional string (\<^verbatim>\<open>if q:\<close>) and of an optional
  integer (\<^verbatim>\<open>if pk:\<close>).\<close>

fun truthy :: "string option \<Rightarrow> bool" where
  "truthy None = False"
| "truthy (Some s) = (s \<noteq> [])"

fun truthy_pk :: "nat option \<Rightarrow> bool" where
  "truthy_pk None = False"
| "truthy_pk (Some k) = (k \<noteq> 0)"

datatype py_error =
    NameError string
  | Http404
  | DoesNotExist
  | MultipleObjectsReturned

section \<open>Forms, responses and the parts of the application outside the module\<close>

text \<open>The four form classes bound by \<^verbatim>\<open>from .forms import (...)\<close>, lines 15 to 20.\<close>

datatype form_class =
    AcceptTicketForm
  | AssignTicketForm
  | CloseTicketForm
  | CommentTicketForm

text \<open>
  A form object of \<^verbatim>\<open>TicketCommentView\<close>: its class, the data it is bound to
  (\<open>None\<close> for an unbound form), and the keyword arguments \<^verbatim>\<open>ticket\<close>, \<^verbatim>\<open>user\<close>
  and, for the close form only, \<^verbatim>\<open>action\<close>.
\<close>

record form =
  form_cls :: form_class
  form_data :: "querydict option"
  form_ticket :: ticket
  form_user :: auth_user
  form_action :: "string option"

text \<open>The instance handed to the model form of \<^verbatim>\<open>TicketUpdateView\<close>: a row of the
  table, or the unsaved \<^verbatim>\<open>Ticket(submitted_by=request.user, status="new")\<close>.\<close>

datatype ticket_instance = Saved ticket | Unsaved auth_user string

record model_form =
  mf_cls :: form_class
  mf_data :: "querydict option"
  mf_instance :: ticket_instance

datatype url =
    LoginUrl
  | Reverse string
  | AbsoluteUrl ticket

datatype render_context =
    CommentContext form ticket string
  | UpdateContext ticket_instance model_form

datatype response =
    HttpResponseRedirect url
  | Render string render_context

text \<open>
  What the module imports from the rest of the application and calls, but whose code is
  not part of the sources: \<^verbatim>\<open>utils.is_admin\<close>, \<^verbatim>\<open>filters.TicketFilter\<close> (its
  \<^verbatim>\<open>qs\<close> for the given GET data and queryset), and the \<^verbatim>\<open>is_valid\<close> and
  \<^verbatim>\<open>save\<close> methods of the forms. They are parameters of every view.
\<close>

record env =
  is_admin :: "auth_user \<Rightarrow> bool"
  TicketFilter_qs :: "querydict \<Rightarrow> ticket list \<Rightarrow> ticket list"
  is_valid :: "form \<Rightarrow> bool"
  save :: "form \<Rightarrow> db \<Rightarrow> db"
  mf_is_valid :: "model_form \<Rightarrow> bool"
  mf_save :: "model_form \<Rightarrow> db \<Rightarrow> ticket \<times> db"

text \<open>
  The names that the module binds to form classes. No other statement of the module
  (import, assignment, \<^verbatim>\<open>def\<close> or \<^verbatim>\<open>class\<close>) binds a name to a form class, and
  there is no star import; looking up any other name as a form class raises
  \<^verbatim>\<open>NameError\<close>.
\<close>

definition module_forms :: "(string \<times> form_class) list" where
  "module_forms =
     [(''AcceptTicketForm'', AcceptTicketForm),
      (''AssignTicketForm'', AssignTicketForm),
      (''CloseTicketForm'', CloseTicketForm),
      (''CommentTicketForm'', CommentTicketForm)]"

definition lookup_form :: "string \<Rightarrow> py_error + form_class" where
  "lookup_form name =
     (case map_of module_forms name of
        None \<Rightarrow> Inl (NameError name)
      | Some c \<Rightarrow> Inr c)"

section \<open>The object-relational layer, as far as the views use it\<close>

definition Ticket_objects :: "db \<Rightarrow> ticket list" where
  "Ticket_objects d = ticket_table d"

text \<open>\<^verbatim>\<open>Ticket.objects.get(pk=pk)\<close>: the row, or one of the two exceptions of
  \<^verbatim>\<open>get\<close>.\<close>

definition Ticket_objects_get :: "db \<Rightarrow> nat \<Rightarrow> py_error + ticket" where
  "Ticket_objects_get d k =
     (case filter (\<lambda>t. ticket_pk t = k) (Ticket_objects d) of
        [] \<Rightarrow> Inl DoesNotExist
      | [t] \<Rightarrow> Inr t
      | _ \<Rightarrow> Inl MultipleObjectsReturned)"

text \<open>\<^verbatim>\<open>get_object_or_404\<close> turns \<^verbatim>\<open>DoesNotExist\<close> into \<^verbatim>\<open>Http404\<close> and lets
  every other exception through.\<close>

definition get_object_or_404 :: "db \<Rightarrow> nat \<Rightarrow> py_error + ticket" where
  "get_object_or_404 d k =
     (case Ticket_objects_get d k of
        Inl DoesNotExist \<Rightarrow> Inl Http404
      | Inl e \<Rightarrow> Inl e
      | Inr t \<Rightarrow> Inr t)"

text \<open>\<^verbatim>\<open>request.user == ticket.submitted_by\<close>: model instances are equal when their
  primary keys are; the anonymous user and a missing submitter equal nobody.\<close>

fun user_eq :: "auth_user \<Rightarrow> user option \<Rightarrow> bool" where
  "user_eq (User u) (Some v) = (user_id u = user_id v)"
| "user_eq _ _ = False"

section \<open>TicketUpdateView, lines 195 to 213\<close>

text \<open>Lines 198 to 203: the ticket to edit, or the early redirect of the ownership
  guard.\<close>

definition TicketUpdateView_ticket ::
  "env \<Rightarrow> db \<Rightarrow> auth_user \<Rightarrow> nat option \<Rightarrow> py_error + (response + ticket_instance)" where
  "TicketUpdateView_ticket e d usr pk =
     (case pk of
        None \<Rightarrow> Inr (Inr (Unsaved usr ''new''))
      | Some k \<Rightarrow>
          if k \<noteq> 0 then
            (case get_object_or_404 d k of
               Inl err \<Rightarrow> Inl err
             | Inr t \<Rightarrow>
                 if \<not> (user_eq usr (submitted_by t) \<or> is_admin e usr)
                 then Inr (Inl (HttpResponseRedirect (AbsoluteUrl t)))
                 else Inr (Inr (Saved t)))
          else Inr (Inr (Unsaved usr ''new'')))"

text \<open>Lines 205 to 213. The callee \<^verbatim>\<open>TicketForm\<close> is looked up before its arguments
  are evaluated, in both branches.\<close>

definition TicketUpdateView_form ::
  "env \<Rightarrow> db \<Rightarrow> request \<Rightarrow> string \<Rightarrow> ticket_instance \<Rightarrow> py_error + (db \<times> response)" where
  "TicketUpdateView_form e d request template_name inst =
     (if POST request \<noteq> [] then
        (case lookup_form ''TicketForm'' of
           Inl err \<Rightarrow> Inl err
         | Inr c \<Rightarrow>
             let form = \<lparr>mf_cls = c, mf_data = Some (POST request), mf_instance = inst\<rparr> in
             if mf_is_valid e form then
               (case mf_save e form d of
                  (new_ticket, d') \<Rightarrow> Inr (d', HttpResponseRedirect (AbsoluteUrl new_ticket)))
             else Inr (d, Render template_name (UpdateContext inst form)))
      else
        (case lookup_form ''TicketForm'' of
           Inl err \<Rightarrow> Inl err
         | Inr c \<Rightarrow>
             let form = \<lparr>mf_cls = c, mf_data = None, mf_instance = inst\<rparr> in
             Inr (d, Render template_name (UpdateContext inst form))))"

text \<open>The view under \<^verbatim>\<open>@login_required\<close>: an anonymous request is redirected to the
  login page by the decorator and never reaches the body.\<close>

definition TicketUpdateView ::
  "env \<Rightarrow> db \<Rightarrow> request \<Rightarrow> nat option \<Rightarrow> py_error + (db \<times> response)" where
  "TicketUpdateView e d request pk =
     (case req_user request of
        AnonymousUser \<Rightarrow> Inr (d, HttpResponseRedirect LoginUrl)
      | User u \<Rightarrow>
          (case TicketUpdateView_ticket e d (req_user request) pk of
             Inl err \<Rightarrow> Inl err
           | Inr (Inl resp) \<Rightarrow> Inr (d, resp)
           | Inr (Inr inst) \<Rightarrow>
               TicketUpdateView_form e d request ''tickets/ticket_form.html'' inst))"

section \<open>TicketCommentView, lines 217 to 265\<close>

text \<open>Lines 228 to 231.\<close>

definition comment_template :: "string \<Rightarrow> string" where
  "comment_template action =
     (if action \<in> set [''closed'', ''reopened'']
      then ''tickets/close_reopen_ticket_form.html''
      else ''tickets/comment_form.html'')"

text \<open>Lines 234 to 244: the form bound to the POST data.\<close>

definition bound_form :: "request \<Rightarrow> ticket \<Rightarrow> string \<Rightarrow> form" where
  "bound_form request t action =
     (if action \<in> set [''closed'', ''reopened'']
      then \<lparr>form_cls = CloseTicketForm, form_data = Some (POST request), form_ticket = t,
            form_user = req_user request, form_action = Some action\<rparr>
      else if action = ''comment''
      then \<lparr>form_cls = CommentTicketForm, form_data = Some (POST request), form_ticket = t,
            form_user = req_user request, form_action = None\<rparr>
      else if action = ''accept''
      then \<lparr>form_cls = AcceptTicketForm, form_data = Some (POST request), form_ticket = t,
            form_user = req_user request, form_action = None\<rparr>
      else \<lparr>form_cls = AssignTicketForm, form_data = Some (POST request), form_ticket = t,
            form_user = req_user request, form_action = None\<rparr>)"

text \<open>Lines 254 to 263: the unbound form of a GET, and the action as the template
  receives it (\<^verbatim>\<open>assign\<close> becomes \<^verbatim>\<open>re-assign\<close> on a ticket that has an assignee).\<close>

definition unbound_form :: "request \<Rightarrow> ticket \<Rightarrow> string \<Rightarrow> form \<times> string" where
  "unbound_form request t action =
     (if action \<in> set [''closed'', ''reopened'']
      then (\<lparr>form_cls = CloseTicketForm, form_data = None, form_ticket = t,
             form_user = req_user request, form_action = Some action\<rparr>, action)
      else if action = ''comment''
      then (\<lparr>form_cls = CommentTicketForm, form_data = None, form_ticket = t,
             form_user = req_user request, form_action = None\<rparr>, action)
      else if action = ''accept''
      then (\<lparr>form_cls = AcceptTicketForm, form_data = None, form_ticket = t,
             form_user = req_user request, form_action = None\<rparr>, action)
      else (\<lparr>form_cls = AssignTicketForm, form_data = None, form_ticket = t,
             form_user = req_user request, form_action = None\<rparr>,
            if assigned_to t \<noteq> None \<and> action = ''assign'' then ''re-assign'' else action))"

text \<open>
  The view under \<^verbatim>\<open>@login_required\<close>. On a bound form that is not valid, line 250
  calls \<^verbatim>\<open>render\<close> and drops its result; control falls through to the
  \<^verbatim>\<open>return render(...)\<close> of line 265, with the bound form.
\<close>

definition TicketCommentView ::
  "env \<Rightarrow> db \<Rightarrow> request \<Rightarrow> nat \<Rightarrow> string \<Rightarrow> py_error + (db \<times> response)" where
  "TicketCommentView e d request pk action =
     (case req_user request of
        AnonymousUser \<Rightarrow> Inr (d, HttpResponseRedirect LoginUrl)
      | User u \<Rightarrow>
          (case Ticket_objects_get d pk of
             Inl DoesNotExist \<Rightarrow> Inr (d, HttpResponseRedirect (Reverse ''tickets:ticket_list''))
           | Inl err \<Rightarrow> Inl err
           | Inr t \<Rightarrow>
               if \<not> is_admin e (req_user request) \<and> action \<noteq> ''comment''
               then Inr (d, HttpResponseRedirect (AbsoluteUrl t))
               else
                 let template = comment_template action in
                 if POST request \<noteq> [] then
                   let form = bound_form request t action in
                   if is_valid e form
                   then Inr (save e form d, HttpResponseRedirect (AbsoluteUrl t))
                   else Inr (d, Render template (CommentContext form t action))
                 else
                   (case unbound_form request t action of
                      (form, action') \<Rightarrow>
                        Inr (d, Render template (CommentContext form t action')))))"

section \<open>TicketDetailView.get_context_data, lines 48 to 69\<close>

text \<open>\<^verbatim>\<open>order_by("-created_on")\<close>: descending in the key. The sort is stable, so rows
  with equal keys keep the order of the table.\<close>

definition order_by_desc :: "('a \<Rightarrow> int) \<Rightarrow> 'a list \<Rightarrow> 'a list" where
  "order_by_desc key xs = sort_key (\<lambda>x. - key x) xs"

text \<open>
  Modelled from the spec: the two managers of \<^verbatim>\<open>FollowUp\<close> are declared in
  \<^verbatim>\<open>models.py\<close>, which is not among the sources. \<^verbatim>\<open>all_comments\<close> returns every
  follow-up, private ones included; the default manager \<^verbatim>\<open>objects\<close> returns the
  public follow-ups only.
\<close>

definition FollowUp_all_comments :: "db \<Rightarrow> followup list" where
  "FollowUp_all_comments d = followup_table d"

definition FollowUp_objects :: "db \<Rightarrow> followup list" where
  "FollowUp_objects d = filter (\<lambda>f. \<not> followup_private f) (followup_table d)"

record detail_context =
  ctx_ticket :: ticket
  ctx_comments :: "followup list"
  ctx_has_voted :: bool

fun auth_user_id :: "auth_user \<Rightarrow> nat option" where
  "auth_user_id AnonymousUser = None"
| "auth_user_id (User u) = Some (user_id u)"

text \<open>Lines 53 to 58.\<close>

definition detail_comments :: "env \<Rightarrow> db \<Rightarrow> auth_user \<Rightarrow> ticket \<Rightarrow> followup list" where
  "detail_comments e d usr t =
     (if is_admin e usr \<or> user_eq usr (submitted_by t)
      then order_by_desc followup_created_on
             (filter (\<lambda>f. followup_ticket f = ticket_pk t) (FollowUp_all_comments d))
      else order_by_desc followup_created_on
             (filter (\<lambda>f. followup_ticket f = ticket_pk t) (FollowUp_objects d)))"

text \<open>Lines 61 to 65. A model instance and the request's user object are both truthy,
  so the first branch is the one taken; the anonymous user has no id.\<close>

definition detail_has_voted :: "db \<Rightarrow> auth_user \<Rightarrow> ticket \<Rightarrow> bool" where
  "detail_has_voted d usr t =
     (let voter_ids =
            map vote_user_id (filter (\<lambda>v. vote_ticket v = ticket_pk t) (uservotelog_table d))
      in case auth_user_id usr of
           None \<Rightarrow> False
         | Some i \<Rightarrow> i \<in> set voter_ids)"

text \<open>The whole method; \<open>obj\<close> is \<^verbatim>\<open>context["ticket"]\<close>, the object that the
  framework's \<^verbatim>\<open>DetailView\<close> has already fetched.\<close>

definition TicketDetailView_get_context_data ::
  "env \<Rightarrow> db \<Rightarrow> request \<Rightarrow> ticket \<Rightarrow> py_error + detail_context" where
  "TicketDetailView_get_context_data e d request obj =
     (case Ticket_objects_get d (ticket_pk obj) of
        Inl err \<Rightarrow> Inl err
      | Inr t \<Rightarrow>
          Inr \<lparr>ctx_ticket = obj,
               ctx_comments = detail_comments e d (req_user request) t,
               ctx_has_voted = detail_has_voted d (req_user request) t\<rparr>)"

section \<open>TicketListView.get_queryset, lines 150 to 192\<close>

text \<open>
  \<^verbatim>\<open>icontains\<close>: the needle occurs in the text as a contiguous substring, letter
  case ignored. Case folding is the database's; the model folds the ASCII letters.
\<close>

definition lower_char :: "char \<Rightarrow> char" where
  "lower_char c =
     (let n = (of_char c :: nat) in if 65 \<le> n \<and> n \<le> 90 then char_of (n + 32) else c)"

definition icontains :: "string \<Rightarrow> string \<Rightarrow> bool" where
  "icontains text needle = sublist (map lower_char needle) (map lower_char text)"

text \<open>\<^verbatim>\<open>submitted_by__username=username\<close> and \<^verbatim>\<open>assigned_to__username=username\<close>:
  a join on the foreign key; a ticket without the related user does not match.\<close>

fun fk_username :: "user option \<Rightarrow> string \<Rightarrow> bool" where
  "fk_username None n = False"
| "fk_username (Some v) n = (username v = n)"

text \<open>Lines 160 to 163.\<close>

fun filter_q :: "string option \<Rightarrow> ticket list \<Rightarrow> ticket list" where
  "filter_q None ts = ts"
| "filter_q (Some q) ts =
     (if q \<noteq> [] then filter (\<lambda>t. icontains (description t) q \<or> icontains (title t) q) ts
      else ts)"

text \<open>Lines 164 to 173.\<close>

fun filter_username :: "string option \<Rightarrow> string option \<Rightarrow> ticket list \<Rightarrow> ticket list" where
  "filter_username None what ts = ts"
| "filter_username (Some n) what ts =
     (if n \<noteq> [] then
        (if what = Some ''submitted_by'' then filter (\<lambda>t. fk_username (submitted_by t) n) ts
         else if what = Some ''assigned_to'' then filter (\<lambda>t. fk_username (assigned_to t) n) ts
         else filter (\<lambda>t. fk_username (submitted_by t) n \<or> fk_username (assigned_to t) n) ts)
      else ts)"

text \<open>Lines 175 and 176.\<close>

fun filter_type :: "string option \<Rightarrow> ticket list \<Rightarrow> ticket list" where
  "filter_type None ts = ts"
| "filter_type (Some ty) ts =
     (if ty \<noteq> [] then order_by_desc created_on (filter (\<lambda>t. ticket_type t = ty) ts)
      else ts)"

definition closed_codes :: "string list" where
  "closed_codes = [''closed'', ''split'', ''duplicate'']"

text \<open>Lines 178 to 187: with a truthy status the queryset is built anew from
  \<^verbatim>\<open>Ticket.objects\<close>; \<open>ts\<close> is the queryset built so far.\<close>

fun filter_status :: "db \<Rightarrow> string option \<Rightarrow> ticket list \<Rightarrow> ticket list" where
  "filter_status d None ts = ts"
| "filter_status d (Some st) ts =
     (if st \<noteq> [] then
        (if st = ''closed''
         then order_by_desc created_on
                (filter (\<lambda>t. status t \<in> set closed_codes) (Ticket_objects d))
         else order_by_desc created_on
                (filter (\<lambda>t. status t \<notin> set closed_codes) (Ticket_objects d)))
      else ts)"

text \<open>The value of the local \<^verbatim>\<open>tickets\<close> when line 190 is reached.\<close>

definition TicketListView_tickets :: "db \<Rightarrow> request \<Rightarrow> kwargs \<Rightarrow> ticket list" where
  "TicketListView_tickets d request kw =
     filter_status d (kw ''status'')
       (filter_type (kw ''type'')
          (filter_username (kw ''username'') (kw ''what'')
             (filter_q (querydict_get (GET request) ''q'')
                (order_by_desc created_on (Ticket_objects d)))))"

text \<open>Lines 189 to 192: the queryset goes through \<^verbatim>\<open>TicketFilter\<close> with the GET
  data, and the filter's \<^verbatim>\<open>qs\<close> is returned.\<close>

definition TicketListView_get_queryset :: "env \<Rightarrow> db \<Rightarrow> request \<Rightarrow> kwargs \<Rightarrow> ticket list" where
  "TicketListView_get_queryset e d request kw =
     TicketFilter_qs e (GET request) (TicketListView_tickets d request kw)"

section \<open>TagIndexView, lines 36 to 42\<close>

text \<open>
  \<^verbatim>\<open>Ticket.objects.filter(tags__slug=...)\<close> joins the tickets with their tags: one
  row for every tag of the ticket that has the slug. When the URL gives no slug,
  \<^verbatim>\<open>kwargs.get\<close> is \<^verbatim>\<open>None\<close>, which the object-relational layer reads as
  \<^verbatim>\<open>IS NULL\<close>: the tickets without any tag.
\<close>

definition TagIndexView_get_queryset :: "db \<Rightarrow> kwargs \<Rightarrow> ticket list" where
  "TagIndexView_get_queryset d kw =
     (case kw ''slug'' of
        None \<Rightarrow> filter (\<lambda>t. tags t = []) (Ticket_objects d)
      | Some s \<Rightarrow>
          concat (map (\<lambda>t. map (\<lambda>g. t) (filter (\<lambda>g. slug g = s) (tags t)))
                      (Ticket_objects d)))"

definition TagIndexView_paginate_by :: nat where
  "TagIndexView_paginate_by = 50"

text \<open>
  The framework's paginator as \<^verbatim>\<open>ListView\<close> uses it (no orphans, an empty first
  page allowed): the number of pages, and page \<open>n\<close> counted from 1; a page number
  out of range ends in \<^verbatim>\<open>Http404\<close>.
\<close>

definition num_pages :: "nat \<Rightarrow> 'a list \<Rightarrow> nat" where
  "num_pages per xs = (max 1 (length xs) + per - 1) div per"

definition paginator_page :: "nat \<Rightarrow> 'a list \<Rightarrow> nat \<Rightarrow> py_error + 'a list" where
  "paginator_page per xs n =
     (if n < 1 \<or> num_pages per xs < n then Inl Http404
      else Inr (take per (drop ((n - 1) * per) xs)))"

definition TagIndexView_page :: "db \<Rightarrow> kwargs \<Rightarrow> nat \<Rightarrow> py_error + ticket list" where
  "TagIndexView_page d kw n =
     paginator_page TagIndexView_paginate_by (TagIndexView_get_queryset d kw) n"

section \<open>A small installation, for concrete runs\<close>

text \<open>Three users, of whom \<open>alice\<close> is the administrator; two tickets; two follow-ups
  on the first ticket, one of them private. Every form is valid, and saving a form
  records a follow-up on the form's ticket.\<close>

definition alice :: user where
  "alice = \<lparr>user_id = 1, username = ''alice''\<rparr>"

definition bob :: user where
  "bob = \<lparr>user_id = 2, username = ''bob''\<rparr>"

definition carol :: user where
  "carol = \<lparr>user_id = 3, username = ''carol''\<rparr>"

definition ticket1 :: ticket where
  "ticket1 = \<lparr>ticket_pk = 1, title = ''Login bug'', description = ''Cannot log in'',
     status = ''new'', ticket_type = ''bug'', submitted_by = Some bob, assigned_to = None,
     created_on = 10, tags = [\<lparr>tag_name = ''Urgent'', slug = ''urgent''\<rparr>]\<rparr>"

definition ticket2 :: ticket where
  "ticket2 = \<lparr>ticket_pk = 2, title = ''Export of BUG reports'', description = ''As a file'',
     status = ''closed'', ticket_type = ''feature'', submitted_by = Some carol,
     assigned_to = Some alice, created_on = 20, tags = []\<rparr>"

definition followup1 :: followup where
  "followup1 = \<lparr>followup_ticket = 1, followup_private = False, followup_created_on = 11,
     followup_comment = ''Which browser?''\<rparr>"

definition followup2 :: followup where
  "followup2 = \<lparr>followup_ticket = 1, followup_private = True, followup_created_on = 12,
     followup_comment = ''Known issue''\<rparr>"

definition db0 :: db where
  "db0 = \<lparr>ticket_table = [ticket1, ticket2], followup_table = [followup1, followup2],
     uservotelog_table = []\<rparr>"

definition env0 :: env where
  "env0 = \<lparr>is_admin = (\<lambda>usr. usr = User alice),
     TicketFilter_qs = (\<lambda>data ts. ts),
     is_valid = (\<lambda>f. True),
     save = (\<lambda>f d. d\<lparr>followup_table := followup_table d @
        [\<lparr>followup_ticket = ticket_pk (form_ticket f), followup_private = False,
          followup_created_on = 30, followup_comment = ''saved''\<rparr>]\<rparr>),
     mf_is_valid = (\<lambda>f. True),
     mf_save = (\<lambda>f d. (ticket1, d))\<rparr>"


definition get_request :: "auth_user \<Rightarrow> querydict \<Rightarrow> request" where
  "get_request usr data = \<lparr>req_user = usr, GET = data, POST = []\<rparr>"

definition post_request :: "auth_user \<Rightarrow> querydict \<Rightarrow> request" where
  "post_request usr data = \<lparr>req_user = usr, GET = [], POST = data\<rparr>"

section \<open>Properties of TicketUpdateView\<close>

lemma lookup_TicketForm: "lookup_form ''TicketForm'' = Inl (NameError ''TicketForm'')"
  by (simp add: lookup_form_def module_forms_def)

lemma TicketUpdateView_form_raises:
  "TicketUpdateView_form e d request template_name inst = Inl (NameError ''TicketForm'')"
  by (simp add: TicketUpdateView_form_def lookup_TicketForm)

text \<open>A truthy \<^verbatim>\<open>pk\<close> without a ticket ends in the framework's \<^verbatim>\<open>Http404\<close>, and
  no request at all is answered with a rendered page.\<close>

lemma TicketUpdateView_missing_ticket:
  assumes "req_user request = User u" and "k \<noteq> 0"
    and "Ticket_objects_get d k = Inl DoesNotExist"
  shows "TicketUpdateView e d request (Some k) = Inl Http404"
  using assms
  by (simp add: TicketUpdateView_def TicketUpdateView_ticket_def get_object_or_404_def)

lemma TicketUpdateView_never_renders:
  "TicketUpdateView e d request pk \<noteq> Inr (d', Render template c)"
  by (auto simp: TicketUpdateView_def TicketUpdateView_form_raises
      TicketUpdateView_ticket_def
      split: auth_user.splits sum.splits option.splits if_splits)

lemma get_ticket1: "get_object_or_404 db0 1 = Inr ticket1"
  by code_simp

text \<open>
  Claim C2. Every logged-in request to \<^verbatim>\<open>TicketUpdateView\<close> that passes the
  ownership guard (no truthy \<^verbatim>\<open>pk\<close>, or the ticket exists and the requester is its
  submitter or an administrator) ends in \<^verbatim>\<open>NameError\<close> for the name
  \<^verbatim>\<open>TicketForm\<close>, whether it is a GET or a POST: the view returns neither a rendered
  page nor a redirect.
\<close>

theorem TicketUpdateView_NameError:
  assumes "req_user request = User u"
    and "truthy_pk pk \<longrightarrow>
           (\<exists>k t. pk = Some k \<and> get_object_or_404 d k = Inr t \<and>
                  (user_eq (User u) (submitted_by t) \<or> is_admin e (User u)))"
  shows "TicketUpdateView e d request pk = Inl (NameError ''TicketForm'')"
proof (cases "truthy_pk pk")
  case False
  then have "TicketUpdateView_ticket e d (User u) pk = Inr (Inr (Unsaved (User u) ''new''))"
    by (cases pk) (simp_all add: TicketUpdateView_ticket_def)
  with assms(1) show ?thesis
    by (simp add: TicketUpdateView_def TicketUpdateView_form_raises)
next
  case True
  with assms(2) obtain k t where k: "pk = Some k" "get_object_or_404 d k = Inr t"
    and own: "user_eq (User u) (submitted_by t) \<or> is_admin e (User u)"
    by blast
  from True k(1) have "k \<noteq> 0" by simp
  with k own have "TicketUpdateView_ticket e d (User u) pk = Inr (Inr (Saved t))"
    by (auto simp: TicketUpdateView_ticket_def)
  with assms(1) show ?thesis
    by (simp add: TicketUpdateView_def TicketUpdateView_form_raises)
qed

theorem TicketUpdateView_NameError_witness:
  "TicketUpdateView env0 db0 (get_request (User bob) []) None = Inl (NameError ''TicketForm'')
   \<and> TicketUpdateView env0 db0 (post_request (User bob) [(''title'', ''Login'')]) (Some 1)
       = Inl (NameError ''TicketForm'')"
proof
  have "req_user (get_request (User bob) []) = User bob"
    by (simp add: get_request_def)
  then show "TicketUpdateView env0 db0 (get_request (User bob) []) None
      = Inl (NameError ''TicketForm'')"
    by (rule TicketUpdateView_NameError) simp
next
  have u: "req_user (post_request (User bob) [(''title'', ''Login'')]) = User bob"
    by (simp add: post_request_def)
  have own: "user_eq (User bob) (submitted_by ticket1)"
    by (simp add: ticket1_def)
  from get_ticket1 own
  have "truthy_pk (Some 1) \<longrightarrow>
     (\<exists>k t. Some 1 = Some k \<and> get_object_or_404 db0 k = Inr t \<and>
        (user_eq (User bob) (submitted_by t) \<or> is_admin env0 (User bob)))"
    by blast
  with u show "TicketUpdateView env0 db0 (post_request (User bob) [(''title'', ''Login'')]) (Some 1)
      = Inl (NameError ''TicketForm'')"
    by (rule TicketUpdateView_NameError)
qed

text \<open>
  Claim C1. The claim asks that no view raises an exception of its own. A run of
  \<^verbatim>\<open>TicketUpdateView\<close>: the administrator opens the form of the second ticket, and
  the view ends in \<^verbatim>\<open>NameError\<close>, which is neither a form validation nor a
  redirect.
\<close>

theorem TicketUpdateView_raises_for_admin:
  "TicketUpdateView env0 db0 (get_request (User alice) []) (Some 2)
     = Inl (NameError ''TicketForm'')"
  by code_simp


section \<open>Properties of TicketCommentView\<close>

text \<open>A \<^verbatim>\<open>pk\<close> without a ticket is answered with a redirect to the ticket list; the
  view raises only if the table has several tickets under one \<^verbatim>\<open>pk\<close>. For the
  five actions of the URLs the bound form has the class of the action, and every other
  action falls into the last branch.\<close>

lemma TicketCommentView_missing_ticket:
  assumes "req_user request = User u" and "Ticket_objects_get d pk = Inl DoesNotExist"
  shows "TicketCommentView e d request pk action
      = Inr (d, HttpResponseRedirect (Reverse ''tickets:ticket_list''))"
  using assms by (simp add: TicketCommentView_def)

lemma Ticket_objects_get_cases:
  "Ticket_objects_get d k = Inl DoesNotExist
   \<or> Ticket_objects_get d k = Inl MultipleObjectsReturned
   \<or> (\<exists>t. Ticket_objects_get d k = Inr t)"
  by (simp add: Ticket_objects_get_def split: list.splits)

lemma TicketCommentView_raises_only:
  "TicketCommentView e d request pk action = Inl err \<Longrightarrow>
     err = MultipleObjectsReturned \<and> Ticket_objects_get d pk = Inl MultipleObjectsReturned"
  using Ticket_objects_get_cases [of d pk]
  by (auto simp: TicketCommentView_def Let_def
      split: auth_user.splits if_splits prod.splits)

lemma bound_form_classes:
  "form_cls (bound_form request t ''closed'') = CloseTicketForm"
  "form_cls (bound_form request t ''reopened'') = CloseTicketForm"
  "form_cls (bound_form request t ''comment'') = CommentTicketForm"
  "form_cls (bound_form request t ''accept'') = AcceptTicketForm"
  "form_cls (bound_form request t ''assign'') = AssignTicketForm"
  by (simp_all add: bound_form_def)

lemma bound_form_else:
  "action \<notin> {''closed'', ''reopened'', ''comment'', ''accept''} \<Longrightarrow>
     form_cls (bound_form request t action) = AssignTicketForm"
  by (simp add: bound_form_def)

lemma TicketCommentView_post:
  assumes "req_user request = User u" and "Ticket_objects_get d pk = Inr t"
    and "is_admin e (User u) \<or> action = ''comment''" and "POST request \<noteq> []"
  shows "TicketCommentView e d request pk action
      = (if is_valid e (bound_form request t action)
         then Inr (save e (bound_form request t action) d, HttpResponseRedirect (AbsoluteUrl t))
         else Inr (d, Render (comment_template action)
                        (CommentContext (bound_form request t action) t action)))"
  using assms by (auto simp: TicketCommentView_def Let_def)

lemma Ticket_objects_get_ticket1: "Ticket_objects_get db0 1 = Inr ticket1"
  by code_simp

text \<open>
  Claim C3, as stated, fails. Two GET requests for the action \<^verbatim>\<open>accept\<close> on the first
  ticket differ in the requester only: the administrator receives the form, the
  submitter is redirected to the ticket by the test of line 225, which is code of
  the module.
\<close>

theorem TicketCommentView_role_counterexample:
  "TicketCommentView env0 db0 (get_request (User alice) []) 1 ''accept''
     = Inr (db0, Render ''tickets/comment_form.html''
         (CommentContext \<lparr>form_cls = AcceptTicketForm, form_data = None, form_ticket = ticket1,
            form_user = User alice, form_action = None\<rparr> ticket1 ''accept''))
   \<and> TicketCommentView env0 db0 (get_request (User bob) []) 1 ''accept''
     = Inr (db0, HttpResponseRedirect (AbsoluteUrl ticket1))"
  by code_simp

text \<open>
  Claim C3, amended. The framework decides only whether the requester is logged in.
  The module computes role and ownership tests of its own: for an existing ticket,
  \<^verbatim>\<open>TicketCommentView\<close> redirects a logged-in requester who is not an administrator
  and whose action is not \<^verbatim>\<open>comment\<close> to the ticket's page, leaving the database
  as it was, and \<^verbatim>\<open>TicketUpdateView\<close> (with a truthy \<^verbatim>\<open>pk\<close>) does the same to a
  logged-in requester who is neither the ticket's submitter nor an administrator.
\<close>

theorem module_access_control:
  assumes "req_user request = User u" and "Ticket_objects_get d k = Inr t"
  shows "(\<not> is_admin e (User u) \<and> action \<noteq> ''comment'' \<longrightarrow>
            TicketCommentView e d request k action
              = Inr (d, HttpResponseRedirect (AbsoluteUrl t)))
       \<and> (k \<noteq> 0 \<and> \<not> user_eq (User u) (submitted_by t) \<and> \<not> is_admin e (User u) \<longrightarrow>
            TicketUpdateView e d request (Some k)
              = Inr (d, HttpResponseRedirect (AbsoluteUrl t)))"
proof (intro conjI impI)
  assume "\<not> is_admin e (User u) \<and> action \<noteq> ''comment''"
  with assms show "TicketCommentView e d request k action
      = Inr (d, HttpResponseRedirect (AbsoluteUrl t))"
    by (simp add: TicketCommentView_def)
next
  assume g: "k \<noteq> 0 \<and> \<not> user_eq (User u) (submitted_by t) \<and> \<not> is_admin e (User u)"
  from assms(2) have "get_object_or_404 d k = Inr t"
    by (simp add: get_object_or_404_def)
  with g have "TicketUpdateView_ticket e d (User u) (Some k)
      = Inr (Inl (HttpResponseRedirect (AbsoluteUrl t)))"
    by (simp add: TicketUpdateView_ticket_def)
  with assms(1) show "TicketUpdateView e d request (Some k)
      = Inr (d, HttpResponseRedirect (AbsoluteUrl t))"
    by (simp add: TicketUpdateView_def)
qed

theorem module_access_control_witness:
  "TicketCommentView env0 db0 (post_request (User bob) [(''comment'', ''mine'')]) 1 ''closed''
     = Inr (db0, HttpResponseRedirect (AbsoluteUrl ticket1))
   \<and> TicketUpdateView env0 db0 (post_request (User carol) [(''title'', ''x'')]) (Some 1)
     = Inr (db0, HttpResponseRedirect (AbsoluteUrl ticket1))"
proof -
  have u: "req_user (post_request (User bob) [(''comment'', ''mine'')]) = User bob"
    by (simp add: post_request_def)
  have v: "req_user (post_request (User carol) [(''title'', ''x'')]) = User carol"
    by (simp add: post_request_def)
  have nb: "\<not> is_admin env0 (User bob) \<and> ''closed'' \<noteq> ''comment''"
    by (simp add: env0_def bob_def alice_def)
  have nc: "(1::nat) \<noteq> 0 \<and> \<not> user_eq (User carol) (submitted_by ticket1)
      \<and> \<not> is_admin env0 (User carol)"
    by (simp add: env0_def ticket1_def bob_def carol_def alice_def)
  from module_access_control [OF u Ticket_objects_get_ticket1, of env0 "''closed''"] nb
    module_access_control [OF v Ticket_objects_get_ticket1, of env0] nc
  show ?thesis by blast
qed

text \<open>
  Claim C4. The claim asks that no action outside \<^verbatim>\<open>accept\<close>, \<^verbatim>\<open>assign\<close>,
  \<^verbatim>\<open>closed\<close>, \<^verbatim>\<open>reopened\<close> and \<^verbatim>\<open>comment\<close> reaches a form save. A run: the
  administrator posts to the first ticket with the action \<^verbatim>\<open>delete\<close>; the
  \<^verbatim>\<open>else\<close> of line 242, commented as the case of \<^verbatim>\<open>assign\<close>, builds an
  \<^verbatim>\<open>AssignTicketForm\<close>, and the form is saved.
\<close>

theorem TicketCommentView_unlisted_action_saved:
  "TicketCommentView env0 db0 (post_request (User alice) [(''assigned_to'', ''3'')]) 1 ''delete''
     = Inr (save env0
              \<lparr>form_cls = AssignTicketForm, form_data = Some [(''assigned_to'', ''3'')],
                form_ticket = ticket1, form_user = User alice, form_action = None\<rparr> db0,
            HttpResponseRedirect (AbsoluteUrl ticket1))
   \<and> followup_table (save env0
              \<lparr>form_cls = AssignTicketForm, form_data = Some [(''assigned_to'', ''3'')],
                form_ticket = ticket1, form_user = User alice, form_action = None\<rparr> db0)
       = [followup1, followup2,
          \<lparr>followup_ticket = 1, followup_private = False, followup_created_on = 30,
            followup_comment = ''saved''\<rparr>]"
  by code_simp

section \<open>Ordering by creation time\<close>

lemma mset_order_by_desc: "mset (order_by_desc key xs) = mset xs"
  by (simp add: order_by_desc_def)

lemma set_order_by_desc: "set (order_by_desc key xs) = set xs"
  by (simp add: order_by_desc_def)

lemma sorted_order_by_desc: "sorted_wrt (\<lambda>a b. key b \<le> key a) (order_by_desc key xs)"
proof -
  have "sorted (map (\<lambda>x. - key x) (order_by_desc key xs))"
    unfolding order_by_desc_def by (rule sorted_sort_key)
  then show ?thesis
    by (simp add: sorted_map)
qed

lemma filter_order_by_desc:
  "filter P (order_by_desc key xs) = order_by_desc key (filter P xs)"
  by (simp add: order_by_desc_def filter_sort)

lemma order_by_desc_twice: "order_by_desc key (order_by_desc key xs) = order_by_desc key xs"
  unfolding order_by_desc_def by (rule sort_key_id_if_sorted) (rule sorted_sort_key)


section \<open>Properties of TicketDetailView\<close>

lemma Ticket_objects_get_pk: "Ticket_objects_get d k = Inr t \<Longrightarrow> ticket_pk t = k"
proof -
  assume a: "Ticket_objects_get d k = Inr t"
  then have "filter (\<lambda>t. ticket_pk t = k) (Ticket_objects d) = [t]"
    by (auto simp: Ticket_objects_get_def split: list.splits)
  then have "t \<in> set (filter (\<lambda>t. ticket_pk t = k) (Ticket_objects d))"
    by simp
  then show ?thesis by simp
qed

text \<open>
  Claim C5. For a ticket of the table and any requester: when the requester is an
  administrator or the ticket's submitter, the comments of the context are all the
  follow-ups of the ticket, private ones included; otherwise they are its public
  follow-ups only, so that no private comment is among them. In both cases they are in
  descending order of creation time.
\<close>

theorem TicketDetailView_comments:
  assumes "Ticket_objects_get d (ticket_pk obj) = Inr t"
  shows "\<exists>ctx. TicketDetailView_get_context_data e d request obj = Inr ctx
     \<and> (if is_admin e (req_user request) \<or> user_eq (req_user request) (submitted_by t)
        then mset (ctx_comments ctx)
               = mset (filter (\<lambda>f. followup_ticket f = ticket_pk obj) (followup_table d))
        else mset (ctx_comments ctx)
               = mset (filter (\<lambda>f. followup_ticket f = ticket_pk obj \<and> \<not> followup_private f)
                        (followup_table d))
           \<and> (\<forall>f \<in> set (ctx_comments ctx). \<not> followup_private f))
     \<and> sorted_wrt (\<lambda>a b. followup_created_on b \<le> followup_created_on a) (ctx_comments ctx)"
proof -
  let ?cs = "detail_comments e d (req_user request) t"
  from assms have pk: "ticket_pk t = ticket_pk obj"
    by (rule Ticket_objects_get_pk)
  have sorted: "sorted_wrt (\<lambda>a b. followup_created_on b \<le> followup_created_on a) ?cs"
    by (simp add: detail_comments_def sorted_order_by_desc)
  have all: "is_admin e (req_user request) \<or> user_eq (req_user request) (submitted_by t) \<Longrightarrow>
      mset ?cs = mset (filter (\<lambda>f. followup_ticket f = ticket_pk obj) (followup_table d))"
    by (simp add: detail_comments_def mset_order_by_desc FollowUp_all_comments_def pk)
  have pub: "\<not> (is_admin e (req_user request) \<or> user_eq (req_user request) (submitted_by t)) \<Longrightarrow>
      mset ?cs = mset (filter (\<lambda>f. followup_ticket f = ticket_pk obj \<and> \<not> followup_private f)
                        (followup_table d))"
    by (simp add: detail_comments_def mset_order_by_desc FollowUp_objects_def pk conj_commute)
  have priv: "\<not> (is_admin e (req_user request) \<or> user_eq (req_user request) (submitted_by t)) \<Longrightarrow>
      \<forall>f \<in> set ?cs. \<not> followup_private f"
    by (simp add: detail_comments_def set_order_by_desc FollowUp_objects_def)
  from assms have "TicketDetailView_get_context_data e d request obj
      = Inr \<lparr>ctx_ticket = obj, ctx_comments = ?cs,
             ctx_has_voted = detail_has_voted d (req_user request) t\<rparr>"
    by (simp add: TicketDetailView_get_context_data_def)
  with sorted all pub priv show ?thesis
    by auto
qed

theorem TicketDetailView_comments_witness:
  "(\<exists>ctx. TicketDetailView_get_context_data env0 db0 (get_request (User carol) []) ticket1 = Inr ctx
      \<and> mset (ctx_comments ctx) = {#followup1#})
   \<and> (\<exists>ctx. TicketDetailView_get_context_data env0 db0 (get_request (User bob) []) ticket1 = Inr ctx
      \<and> mset (ctx_comments ctx) = {#followup1, followup2#})"
proof -
  have g: "Ticket_objects_get db0 (ticket_pk ticket1) = Inr ticket1"
    by code_simp
  have c: "\<not> (is_admin env0 (req_user (get_request (User carol) []))
      \<or> user_eq (req_user (get_request (User carol) [])) (submitted_by ticket1))"
    by (simp add: env0_def get_request_def ticket1_def carol_def alice_def bob_def)
  have b: "user_eq (req_user (get_request (User bob) [])) (submitted_by ticket1)"
    by (simp add: get_request_def ticket1_def)
  have f1: "filter (\<lambda>f. followup_ticket f = ticket_pk ticket1 \<and> \<not> followup_private f)
      (followup_table db0) = [followup1]"
    by (simp add: db0_def followup1_def followup2_def ticket1_def)
  have f2: "filter (\<lambda>f. followup_ticket f = ticket_pk ticket1) (followup_table db0)
      = [followup1, followup2]"
    by (simp add: db0_def followup1_def followup2_def ticket1_def)
  from TicketDetailView_comments [OF g, of env0 "get_request (User carol) []"] c f1
  have "\<exists>ctx. TicketDetailView_get_context_data env0 db0 (get_request (User carol) []) ticket1 = Inr ctx
      \<and> mset (ctx_comments ctx) = {#followup1#}"
    by auto
  moreover
  from TicketDetailView_comments [OF g, of env0 "get_request (User bob) []"] b f2
  have "\<exists>ctx. TicketDetailView_get_context_data env0 db0 (get_request (User bob) []) ticket1 = Inr ctx
      \<and> mset (ctx_comments ctx) = {#followup1, followup2#}"
    by auto
  ultimately show ?thesis by blast
qed


section \<open>Properties of TicketListView.get_queryset\<close>




text \<open>
  Claim C7, as stated, fails. A request carries the query \<^verbatim>\<open>bug\<close> and no status, and
  its URL names the ticket type \<^verbatim>\<open>feature\<close>: the first ticket has the query in its
  title and is not in the list, since line 176 keeps the tickets of that type only.
\<close>

theorem search_query_counterexample:
  "querydict_get (GET (get_request (User bob) [(''q'', ''bug'')])) ''q'' = Some ''bug''
   \<and> [''type'' \<mapsto> ''feature''] ''status'' = None
   \<and> ticket1 \<in> set (ticket_table db0)
   \<and> icontains (title ticket1) ''bug''
   \<and> ticket1 \<notin> set (TicketListView_get_queryset env0 db0
         (get_request (User bob) [(''q'', ''bug'')]) [''type'' \<mapsto> ''feature''])"
  by code_simp

text \<open>
  Claim C7, amended. For every request that carries a non-empty query string and whose
  URL gives no status, no user name and no ticket type, the queryset that reaches
  line 190 holds exactly the tickets whose title or description contains the query,
  letter case ignored, each as often as the table has it, newest first; the method
  returns this queryset as \<^verbatim>\<open>TicketFilter\<close> passes it on.
\<close>

theorem TicketListView_search_query:
  assumes "querydict_get (GET request) ''q'' = Some q" and "q \<noteq> []"
    and "\<not> truthy (kw ''status'')" and "\<not> truthy (kw ''username'')"
    and "\<not> truthy (kw ''type'')"
  shows "mset (TicketListView_tickets d request kw)
           = mset (filter (\<lambda>t. icontains (description t) q \<or> icontains (title t) q)
                    (ticket_table d))
       \<and> sorted_wrt (\<lambda>a b. created_on b \<le> created_on a) (TicketListView_tickets d request kw)
       \<and> TicketListView_get_queryset e d request kw
           = TicketFilter_qs e (GET request) (TicketListView_tickets d request kw)"
proof -
  from assms(3) have s: "filter_status d (kw ''status'') = (\<lambda>ts. ts)"
    by (cases "kw ''status''") (auto simp: fun_eq_iff)
  from assms(4) have u: "filter_username (kw ''username'') (kw ''what'') = (\<lambda>ts. ts)"
    by (cases "kw ''username''") (auto simp: fun_eq_iff)
  from assms(5) have ty: "filter_type (kw ''type'') = (\<lambda>ts. ts)"
    by (cases "kw ''type''") (auto simp: fun_eq_iff)
  from assms(1,2) have "TicketListView_tickets d request kw
      = order_by_desc created_on
          (filter (\<lambda>t. icontains (description t) q \<or> icontains (title t) q) (ticket_table d))"
    by (simp add: TicketListView_tickets_def s u ty filter_order_by_desc Ticket_objects_def)
  then show ?thesis
    by (simp add: mset_order_by_desc sorted_order_by_desc TicketListView_get_queryset_def)
qed

theorem TicketListView_search_query_witness:
  "TicketListView_get_queryset env0 db0 (get_request (User bob) [(''q'', ''bug'')]) Map.empty
     = [ticket2, ticket1]
   \<and> mset (TicketListView_tickets db0 (get_request (User bob) [(''q'', ''LOG'')]) Map.empty)
     = {#ticket1#}"
proof -
  have q: "querydict_get (GET (get_request (User bob) [(''q'', ''LOG'')])) ''q'' = Some ''LOG''"
    by code_simp
  have ne: "''LOG'' \<noteq> []" by simp
  have k: "\<not> truthy ((Map.empty :: kwargs) k)" for k
    by simp
  have f: "filter (\<lambda>t. icontains (description t) ''LOG'' \<or> icontains (title t) ''LOG'')
      (ticket_table db0) = [ticket1]"
    by code_simp
  have g: "TicketListView_get_queryset env0 db0 (get_request (User bob) [(''q'', ''bug'')]) Map.empty
     = [ticket2, ticket1]"
    by code_simp
  note r = TicketListView_search_query
    [where kw = "Map.empty" and q = "''LOG''" and d = db0 and e = env0
       and request = "get_request (User bob) [(''q'', ''LOG'')]", OF q ne k k k]
  from r f g show ?thesis by simp
qed


section \<open>Properties of TagIndexView\<close>

text \<open>The pages of a paginator, one after the other, are the whole list.\<close>

lemma concat_pages:
  "concat (map (\<lambda>i. take per (drop (i * per) xs)) [0..<m]) = take (m * per) xs"
proof (induction m)
  case 0
  show ?case by simp
next
  case (Suc m)
  have "take (m * per) xs @ take per (drop (m * per) xs) = take (m * per + per) xs"
    by (simp add: take_add)
  with Suc show ?case
    by (simp add: add.commute)
qed

lemma pages_cover:
  assumes "0 < per"
  shows "length xs \<le> num_pages per xs * per"
proof -
  have "length xs \<le> max 1 (length xs)" by simp
  also have "\<dots> \<le> ((max 1 (length xs) + per - 1) div per) * per"
  proof -
    let ?n = "max 1 (length xs)"
    have "?n + per - 1 = (?n + per - 1) div per * per + (?n + per - 1) mod per"
      by simp
    moreover have "(?n + per - 1) mod per < per"
      using assms by simp
    ultimately show ?thesis by linarith
  qed
  finally show ?thesis by (simp add: num_pages_def)
qed

lemma all_pages:
  assumes "0 < per"
  shows "concat (map (\<lambda>n. take per (drop ((n - 1) * per) xs)) [1..<Suc (num_pages per xs)]) = xs"
proof -
  have "map (\<lambda>n. take per (drop ((n - 1) * per) xs)) [1..<Suc (num_pages per xs)]
      = map (\<lambda>i. take per (drop (i * per) xs)) [0..<num_pages per xs]"
    by (simp add: map_Suc_upt [symmetric] del: upt_Suc)
  then show ?thesis
    using pages_cover [OF assms, of xs] by (simp add: concat_pages)
qed

text \<open>
  Claim C8. For every tag slug, the queryset of \<^verbatim>\<open>TagIndexView\<close> contains exactly
  the tickets that bear a tag with that slug, and the view paginates it at 50 records
  per page: every page within range exists, holds at most 50 tickets, namely the next
  50 of the queryset, and the pages together are the queryset.
\<close>

theorem TagIndexView_tagged_tickets:
  assumes "kw ''slug'' = Some s"
  shows "set (TagIndexView_get_queryset d kw)
           = {t \<in> set (ticket_table d). \<exists>g \<in> set (tags t). slug g = s}
       \<and> TagIndexView_paginate_by = 50
       \<and> (\<forall>n. 1 \<le> n \<and> n \<le> num_pages 50 (TagIndexView_get_queryset d kw) \<longrightarrow>
            (\<exists>p. TagIndexView_page d kw n = Inr p \<and> length p \<le> 50
                 \<and> p = take 50 (drop ((n - 1) * 50) (TagIndexView_get_queryset d kw))))
       \<and> concat (map (\<lambda>n. take 50 (drop ((n - 1) * 50) (TagIndexView_get_queryset d kw)))
                  [1..<Suc (num_pages 50 (TagIndexView_get_queryset d kw))])
           = TagIndexView_get_queryset d kw"
proof (intro conjI allI impI)
  from assms show "set (TagIndexView_get_queryset d kw)
      = {t \<in> set (ticket_table d). \<exists>g \<in> set (tags t). slug g = s}"
    by (auto simp: TagIndexView_get_queryset_def Ticket_objects_def)
next
  show "TagIndexView_paginate_by = 50"
    by (simp add: TagIndexView_paginate_by_def)
next
  fix n
  assume "1 \<le> n \<and> n \<le> num_pages 50 (TagIndexView_get_queryset d kw)"
  then show "\<exists>p. TagIndexView_page d kw n = Inr p \<and> length p \<le> 50
      \<and> p = take 50 (drop ((n - 1) * 50) (TagIndexView_get_queryset d kw))"
    by (simp add: TagIndexView_page_def paginator_page_def TagIndexView_paginate_by_def)
next
  show "concat (map (\<lambda>n. take 50 (drop ((n - 1) * 50) (TagIndexView_get_queryset d kw)))
                  [1..<Suc (num_pages 50 (TagIndexView_get_queryset d kw))])
           = TagIndexView_get_queryset d kw"
    by (rule all_pages) simp
qed

theorem TagIndexView_tagged_tickets_witness:
  "set (TagIndexView_get_queryset db0 [''slug'' \<mapsto> ''urgent'']) = {ticket1}
   \<and> TagIndexView_page db0 [''slug'' \<mapsto> ''urgent''] 1 = Inr [ticket1]"
proof -
  have k: "[''slug'' \<mapsto> ''urgent''] ''slug'' = Some ''urgent''"
    by simp
  note r = TagIndexView_tagged_tickets
    [where kw = "[''slug'' \<mapsto> ''urgent'']" and s = "''urgent''" and d = db0, OF k]
  have s: "{t \<in> set (ticket_table db0). \<exists>g \<in> set (tags t). slug g = ''urgent''} = {ticket1}"
    by (auto simp: db0_def ticket1_def ticket2_def)
  have p: "TagIndexView_page db0 [''slug'' \<mapsto> ''urgent''] 1 = Inr [ticket1]"
    by code_simp
  from r s p show ?thesis by simp
qed

end
